theory Spec2Isabelle
  imports Complex_Main "HOL-Library.Word"
begin

section \<open>Python values handled by the adapter\<close>

text \<open>
  The development embeds \<^verbatim>\<open>src/voiceagent/playht.py\<close>: the class \<^verbatim>\<open>PlayHTTTS\<close>, which
  buffers text fragments, sends them to a remote text-to-speech service and turns the
  streamed reply into audio frames paired with a request id.

  Byte strings are lists of 8-bit words, Python \<^verbatim>\<open>int\<close>s are \<^typ>\<open>int\<close>, Python
  \<^verbatim>\<open>str\<close>s are \<^typ>\<open>string\<close>.
\<close>

type_synonym byte = "8 word"
type_synonym bytes = "byte list"

text \<open>
  Exceptions of class \<^verbatim>\<open>Exception\<close>: the ones Python itself raises in this code, and
  whatever the HTTP client raises (named by its class).
\<close>

datatype py_exception =
    TypeError
  | KeyError
  | ZeroDivisionError
  | JSONDecodeError
  | ValueError
  | TransportError string

text \<open>
  What \<^verbatim>\<open>response.json()\<close> can return. A JSON object is a Python dict with string
  keys, kept as an association list read with \<^const>\<open>map_of\<close>.
\<close>

datatype json =
    JNull
  | JBool bool
  | JInt int
  | JFloat rat
  | JStr string
  | JArr "json list"
  | JObj "(string \<times> json) list"

text \<open>\<^verbatim>\<open>k in s\<close> on two strings: \<^verbatim>\<open>k\<close> occurs in \<^verbatim>\<open>s\<close> as a contiguous run.\<close>

fun is_substring :: "string \<Rightarrow> string \<Rightarrow> bool" where
  "is_substring k [] = (k = [])"
| "is_substring k (c # cs) = (take (length k) (c # cs) = k \<or> is_substring k cs)"

text \<open>
  \<^verbatim>\<open>k in v\<close> for a string \<^verbatim>\<open>k\<close>: key membership on a dict, element membership on
  a list, substring test on a string, \<^verbatim>\<open>TypeError\<close> on everything else
  (\<^verbatim>\<open>None\<close>, booleans and numbers are not iterable).
\<close>

fun py_contains :: "string \<Rightarrow> json \<Rightarrow> py_exception + bool" where
  "py_contains k (JObj kvs) = Inr (k \<in> fst ` set kvs)"
| "py_contains k (JArr xs) = Inr (JStr k \<in> set xs)"
| "py_contains k (JStr s) = Inr (is_substring k s)"
| "py_contains k JNull = Inl TypeError"
| "py_contains k (JBool b) = Inl TypeError"
| "py_contains k (JInt i) = Inl TypeError"
| "py_contains k (JFloat q) = Inl TypeError"

text \<open>
  \<^verbatim>\<open>v[k]\<close> for a string \<^verbatim>\<open>k\<close>: a dict looks the key up (\<^verbatim>\<open>KeyError\<close> when it is
  missing); a list or a string wants an integer index and every other value is not
  subscriptable, both \<^verbatim>\<open>TypeError\<close>.
\<close>

fun py_getitem :: "json \<Rightarrow> string \<Rightarrow> py_exception + json" where
  "py_getitem (JObj kvs) k = (case map_of kvs k of None \<Rightarrow> Inl KeyError | Some v \<Rightarrow> Inr v)"
| "py_getitem JNull k = Inl TypeError"
| "py_getitem (JBool b) k = Inl TypeError"
| "py_getitem (JInt i) k = Inl TypeError"
| "py_getitem (JFloat q) k = Inl TypeError"
| "py_getitem (JStr s) k = Inl TypeError"
| "py_getitem (JArr xs) k = Inl TypeError"

text \<open>\<^verbatim>\<open>' '.join(xs)\<close>\<close>

fun join_space :: "string list \<Rightarrow> string" where
  "join_space [] = []"
| "join_space [x] = x"
| "join_space (x # y # ys) = x @ '' '' @ join_space (y # ys)"

text \<open>
  \<^verbatim>\<open>uuid.uuid4().hex\<close>: the UUID's 128-bit integer printed as 32 lower-case
  hexadecimal digits, most significant first. The random 128-bit value is an input of
  the model.
\<close>

type_synonym uuid = "128 word"

definition hex_digit :: "nat \<Rightarrow> char" where
  "hex_digit d = ''0123456789abcdef'' ! d"

definition uuid_hex :: "uuid \<Rightarrow> string" where
  "uuid_hex u = map (\<lambda>i. hex_digit (unat (drop_bit (4 * (31 - i)) u) mod 16)) [0..<32]"

section \<open>Frames and synthesized units\<close>

text \<open>
  Modelled from the spec: \<^verbatim>\<open>AudioFrame\<close> (livekit.rtc) and \<^verbatim>\<open>SynthesizedAudio\<close>
  (livekit.agents.tts) are library classes outside the repository. The spec's data
  model gives AudioChunk as \<open>{sample count per channel, sample rate, channel count,
  raw sample bytes}\<close> and SynthesizedUnit as \<open>{AudioChunk, correlation identifier}\<close>;
  both are records holding the constructor's arguments.
\<close>

record audio_frame =
  samples_per_channel :: int
  frame_sample_rate :: int
  frame_num_channels :: int
  data :: bytes

text \<open>
  The constructor \<^verbatim>\<open>AudioFrame(data, sample_rate, num_channels, samples_per_channel)\<close>
  of livekit.rtc validates its data before storing it: the data must hold at least
  \<open>num_channels * samples_per_channel\<close> samples of two bytes each, and its length
  must be a multiple of two; otherwise it raises \<^verbatim>\<open>ValueError\<close>. (Releases of the
  library up to 0.19.1 make the first check only; the repository pins no release.)
\<close>

definition AudioFrame :: "int \<Rightarrow> int \<Rightarrow> int \<Rightarrow> bytes \<Rightarrow> py_exception + audio_frame" where
  "AudioFrame spc rate ch d =
     (if int (length d) < ch * spc * 2 then Inl ValueError
      else if odd (length d) then Inl ValueError
      else Inr \<lparr> samples_per_channel = spc, frame_sample_rate = rate,
                 frame_num_channels = ch, data = d \<rparr>)"

text \<open>
  The request id is the string \<^verbatim>\<open>error-...\<close> on failure and, on success, whatever
  value the reply holds under \<^verbatim>\<open>transcriptionId\<close>.
\<close>

record synthesized_audio =
  frame :: audio_frame
  request_id :: json

section \<open>The HTTP transport\<close>

record payload =
  payload_voice :: string
  content :: string
  format :: string
  payload_voice_engine :: string

text \<open>
  The two calls made on the HTTP client. The URL of the streaming GET is the f-string
  \<^verbatim>\<open>f"{self.api_url}/stream/{transcription_id}"\<close>: its fixed part and the value
  interpolated after it.
\<close>

datatype request =
    Post string payload "(string \<times> string) list"
  | StreamGet string json "(string \<times> string) list"

text \<open>
  How the remote side answers one synthesis call. \<^verbatim>\<open>client.post\<close> raises or returns
  a response with a status code, whose \<^verbatim>\<open>json()\<close> raises or returns a value. The
  streaming GET raises when it is opened, or delivers byte chunks and then either
  closes or raises.
\<close>

datatype post_outcome =
    PostRaises py_exception
  | PostResponse int "py_exception + json"

datatype stream_end = StreamClosed | StreamRaises py_exception

datatype get_outcome =
    GetRaises py_exception
  | GetChunks "bytes list" stream_end

record remote =
  post_reply :: post_outcome
  get_reply :: get_outcome

section \<open>The adapter\<close>

text \<open>
  The attributes \<^verbatim>\<open>__init__\<close> sets. \<^verbatim>\<open>events\<close> is the registry of the
  \<^verbatim>\<open>EventEmitter\<close> base (event name to the handles of its callbacks);
  \<^verbatim>\<open>capabilities\<close> is the \<^verbatim>\<open>streaming\<close> flag of the \<^verbatim>\<open>Capabilities\<close> object.
\<close>

record adapter =
  events :: "(string \<times> nat list) list"
  api_url :: string
  api_key :: string
  user_id :: string
  voice :: string
  voice_engine :: string
  headers :: "(string \<times> string) list"
  capabilities :: bool
  input_buffer :: "string list"
  is_input_done :: bool
  sample_rate :: int
  num_channels :: int

definition init :: "string \<Rightarrow> string \<Rightarrow> string \<Rightarrow> adapter" where
  "init key uid v =
     \<lparr> events = [],
       api_url = ''https://play.ht/api/v1'',
       api_key = key,
       user_id = uid,
       voice = v,
       voice_engine = ''Play3.0-mini-http'',
       headers = [(''Authorization'', ''Bearer '' @ key),
                  (''X-User-ID'', uid),
                  (''Content-Type'', ''application/json'')],
       capabilities = True,
       input_buffer = [],
       is_input_done = False,
       sample_rate = 44100,
       num_channels = 1 \<rparr>"

definition stream :: "adapter \<Rightarrow> adapter" where
  "stream s = s"

definition push_text :: "string \<Rightarrow> adapter \<Rightarrow> adapter" where
  "push_text text s = s\<lparr>input_buffer := input_buffer s @ [text]\<rparr>"

definition end_input :: "adapter \<Rightarrow> adapter" where
  "end_input s = s\<lparr>is_input_done := True\<rparr>"

definition aclose :: "adapter \<Rightarrow> adapter" where
  "aclose s = s\<lparr>is_input_done := True\<rparr>"

section \<open>synthesize_stream\<close>

text \<open>
  One run of the async generator \<^verbatim>\<open>synthesize_stream\<close>, iterated to its end: the calls
  it made on the HTTP client, the units it yielded, both in order, and how it ended
  (\<open>Inr ()\<close>: it returned; \<open>Inl e\<close>: it raised \<open>e\<close>).
\<close>

record gen_run =
  requests :: "request list"
  units :: "synthesized_audio list"
  outcome :: "py_exception + unit"

definition error_request_id :: "uuid \<Rightarrow> string" where
  "error_request_id u = ''error-'' @ take 8 (uuid_hex u)"

text \<open>
  The statements of lines 89-96, repeated at 102-109 and 126-133: build the frame of 80
  samples per channel over \<^verbatim>\<open>b'\x00' * 160\<close> and yield it under a fresh error id.
  The units yielded and how the statements end; a \<^verbatim>\<open>ValueError\<close> of the constructor
  leaves them before the \<^verbatim>\<open>yield\<close>.
\<close>

definition yield_silence ::
  "adapter \<Rightarrow> uuid \<Rightarrow> synthesized_audio list \<times> (py_exception + unit)"
where
  "yield_silence s u =
     (case AudioFrame 80 (sample_rate s) (num_channels s) (replicate 160 0) of
        Inl e \<Rightarrow> ([], Inl e)
      | Inr raw_frame \<Rightarrow>
          ([\<lparr> frame = raw_frame, request_id = JStr (error_request_id u) \<rparr>], Inr ()))"

text \<open>
  The \<^verbatim>\<open>async for chunk in stream.aiter_bytes()\<close> loop. The floor division
  \<^verbatim>\<open>len(chunk) // (2 * self.num_channels)\<close> raises \<^verbatim>\<open>ZeroDivisionError\<close> on a zero
  divisor, before the chunk's frame is built; the constructor may raise in its turn.
  Either exception ends the loop with the chunk's unit not yielded.
\<close>

fun stream_loop ::
  "adapter \<Rightarrow> json \<Rightarrow> bytes list \<Rightarrow> stream_end \<Rightarrow> synthesized_audio list \<times> (py_exception + unit)"
where
  "stream_loop s tid [] StreamClosed = ([], Inr ())"
| "stream_loop s tid [] (StreamRaises e) = ([], Inl e)"
| "stream_loop s tid (chunk # rest) fin =
     (if 2 * num_channels s = 0 then ([], Inl ZeroDivisionError)
      else
        (case AudioFrame (int (length chunk) div (2 * num_channels s)) (sample_rate s)
                (num_channels s) chunk of
           Inl e \<Rightarrow> ([], Inl e)
         | Inr raw_frame \<Rightarrow>
             let (later, fin') = stream_loop s tid rest fin
             in (\<lparr> frame = raw_frame, request_id = tid \<rparr> # later, fin')))"

text \<open>The body of the \<^verbatim>\<open>try\<close> block, lines 86-122.\<close>

definition synthesize_try :: "adapter \<Rightarrow> string \<Rightarrow> remote \<Rightarrow> uuid \<Rightarrow> gen_run" where
  "synthesize_try s text r u =
     (let body = \<lparr> payload_voice = voice s, content = text, format = ''mp3'',
                   payload_voice_engine = voice_engine s \<rparr>;
          post = Post (api_url s @ ''/convert'') body (headers s)
      in case post_reply r of
           PostRaises e \<Rightarrow> \<lparr> requests = [post], units = [], outcome = Inl e \<rparr>
         | PostResponse status_code parsed \<Rightarrow>
             if status_code \<noteq> 200
             then (let (us, res) = yield_silence s u
                   in \<lparr> requests = [post], units = us, outcome = res \<rparr>)
             else
               (case parsed of
                  Inl e \<Rightarrow> \<lparr> requests = [post], units = [], outcome = Inl e \<rparr>
                | Inr response_data \<Rightarrow>
                    (case py_contains ''transcriptionId'' response_data of
                       Inl e \<Rightarrow> \<lparr> requests = [post], units = [], outcome = Inl e \<rparr>
                     | Inr False \<Rightarrow>
                         (let (us, res) = yield_silence s u
                          in \<lparr> requests = [post], units = us, outcome = res \<rparr>)
                     | Inr True \<Rightarrow>
                         (case py_getitem response_data ''transcriptionId'' of
                            Inl e \<Rightarrow> \<lparr> requests = [post], units = [], outcome = Inl e \<rparr>
                          | Inr transcription_id \<Rightarrow>
                              (let get = StreamGet (api_url s @ ''/stream/'') transcription_id
                                           (headers s)
                               in case get_reply r of
                                    GetRaises e \<Rightarrow>
                                      \<lparr> requests = [post, get], units = [], outcome = Inl e \<rparr>
                                  | GetChunks chunks fin \<Rightarrow>
                                      (let (us, res) = stream_loop s transcription_id chunks fin
                                       in \<lparr> requests = [post, get], units = us,
                                            outcome = res \<rparr>))))))"

text \<open>
  The whole generator: the \<^verbatim>\<open>except Exception\<close> handler of lines 124-133 yields
  one more unit, the silence frame, after whatever the \<^verbatim>\<open>try\<close> block yielded, and the
  generator then ends. An exception raised inside the handler leaves the generator.
\<close>

definition synthesize_stream :: "adapter \<Rightarrow> string \<Rightarrow> remote \<Rightarrow> uuid \<Rightarrow> gen_run" where
  "synthesize_stream s text r u =
     (let run = synthesize_try s text r u
      in case outcome run of
           Inl e \<Rightarrow>
             (let (us, res) = yield_silence s u
              in run\<lparr>units := units run @ us, outcome := res\<rparr>)
         | Inr ok \<Rightarrow> run)"

section \<open>flush\<close>

text \<open>
  Calling an \<^verbatim>\<open>async def\<close> function gives an object without running any of its body:
  an async generator when the body contains \<^verbatim>\<open>yield\<close>, a coroutine otherwise. The
  object carries what running it would do. \<^verbatim>\<open>await\<close> runs a coroutine to its
  result; an async generator is not awaitable, and \<^verbatim>\<open>await\<close> on it raises
  \<^verbatim>\<open>TypeError\<close> with the body never started.
\<close>

datatype 'r py_async = Coroutine 'r | AsyncGenerator 'r

fun py_await :: "'r py_async \<Rightarrow> py_exception + 'r" where
  "py_await (Coroutine run) = Inr run"
| "py_await (AsyncGenerator run) = Inl TypeError"

text \<open>
  \<^verbatim>\<open>flush\<close>, lines 65-70: how the call ends, the calls made on the HTTP client, and
  the adapter afterwards. \<^verbatim>\<open>synthesize_stream\<close> contains \<^verbatim>\<open>yield\<close>, so
  \<^verbatim>\<open>self.synthesize_stream(paragraph)\<close> is an async generator object.
\<close>

definition flush ::
  "adapter \<Rightarrow> remote \<Rightarrow> uuid \<Rightarrow> (py_exception + unit) \<times> request list \<times> adapter"
where
  "flush s r u =
     (if input_buffer s \<noteq> [] then
        let paragraph = join_space (input_buffer s)
        in case py_await (AsyncGenerator (synthesize_stream s paragraph r u)) of
             Inl e \<Rightarrow> (Inl e, [], s)
           | Inr run \<Rightarrow> (Inr (), requests run, s\<lparr>input_buffer := []\<rparr>)
      else (Inr (), [], s))"

section \<open>The adapter's own iteration\<close>

text \<open>
  One pass through the body of the \<^verbatim>\<open>while\<close> loop of \<^verbatim>\<open>__aiter__\<close>, lines
  138-142, as a run of its own: with a non-empty buffer the joined text is synthesized,
  every unit is yielded on, and the buffer is cleared once the inner generator has
  ended normally; with an empty buffer the body does nothing.
\<close>

definition aiter_pass :: "adapter \<Rightarrow> remote \<Rightarrow> uuid \<Rightarrow> gen_run \<times> adapter" where
  "aiter_pass s r u =
     (if input_buffer s \<noteq> [] then
        let text = join_space (input_buffer s);
            run = synthesize_stream s text r u
        in case outcome run of
             Inl e \<Rightarrow> (run, s)
           | Inr ok \<Rightarrow> (run, s\<lparr>input_buffer := []\<rparr>)
      else (\<lparr> requests = [], units = [], outcome = Inr () \<rparr>, s))"

text \<open>
  The points at which a run hands control back to the event loop: every call awaited
  on the HTTP client and every unit yielded.
\<close>

definition suspension_points :: "gen_run \<Rightarrow> nat" where
  "suspension_points run = length (requests run) + length (units run)"

text \<open>
  The \<^verbatim>\<open>while\<close> loop of \<^verbatim>\<open>__aiter__\<close>, lines 137-142, with nobody else touching
  the adapter meanwhile. \<open>env k\<close> is the remote side's answer and the UUID drawn in
  pass \<open>k\<close>. The loop need not end: \<open>None\<close> is a loop that runs forever.
\<close>

partial_function (option) aiter_loop ::
  "(nat \<Rightarrow> remote \<times> uuid) \<Rightarrow> nat \<Rightarrow> adapter \<Rightarrow> (gen_run \<times> adapter) option"
where
  "aiter_loop env k s =
     (if \<not> is_input_done s \<or> input_buffer s \<noteq> [] then
        (case aiter_pass s (fst (env k)) (snd (env k)) of
           (run, s') \<Rightarrow>
             (case outcome run of
                Inl e \<Rightarrow> Some (run, s')
              | Inr ok \<Rightarrow>
                  Option.bind (aiter_loop env (Suc k) s')
                    (\<lambda>(rest, s'').
                       Some (\<lparr> requests = requests run @ requests rest,
                               units = units run @ units rest,
                               outcome = outcome rest \<rparr>, s''))))
      else Some (\<lparr> requests = [], units = [], outcome = Inr () \<rparr>, s))"

definition aiter :: "(nat \<Rightarrow> remote \<times> uuid) \<Rightarrow> adapter \<Rightarrow> (gen_run \<times> adapter) option" where
  "aiter env s = aiter_loop env 0 s"

section \<open>Adapter states the program can be in\<close>

text \<open>
  An adapter is built by \<^verbatim>\<open>__init__\<close> and from then on changed only by its own
  methods.
\<close>

inductive reachable :: "adapter \<Rightarrow> bool" where
  reach_init: "reachable (init key uid v)"
| reach_push_text: "reachable s \<Longrightarrow> reachable (push_text text s)"
| reach_end_input: "reachable s \<Longrightarrow> reachable (end_input s)"
| reach_aclose: "reachable s \<Longrightarrow> reachable (aclose s)"
| reach_flush: "reachable s \<Longrightarrow> reachable (snd (snd (flush s r u)))"
| reach_aiter_pass: "reachable s \<Longrightarrow> reachable (snd (aiter_pass s r u))"

section \<open>Vocabulary of the properties\<close>

text \<open>The pattern \<^verbatim>\<open>error-[0-9a-f]{8}\<close>, matched against a whole string.\<close>

definition is_lower_hex :: "char \<Rightarrow> bool" where
  "is_lower_hex c = (c \<in> set ''0123456789abcdef'')"

definition matches_error_pattern :: "string \<Rightarrow> bool" where
  "matches_error_pattern rid =
     (take 6 rid = ''error-'' \<and> length rid = 14 \<and> list_all is_lower_hex (drop 6 rid))"

text \<open>
  The parsed reply body is a JSON object that has the key \<^verbatim>\<open>transcriptionId\<close>.
\<close>

fun has_transcription_id :: "py_exception + json \<Rightarrow> bool" where
  "has_transcription_id (Inr (JObj kvs)) = (''transcriptionId'' \<in> fst ` set kvs)"
| "has_transcription_id other = False"

text \<open>
  The silence sentinel of the spec: 80 samples per channel at 44100 Hz, one channel, 160
  zero bytes, under the error id made from \<open>u\<close>.
\<close>

definition silence_unit :: "uuid \<Rightarrow> synthesized_audio" where
  "silence_unit u =
     \<lparr> frame = \<lparr> samples_per_channel = 80, frame_sample_rate = 44100,
                 frame_num_channels = 1, data = replicate 160 0 \<rparr>,
       request_id = JStr (error_request_id u) \<rparr>"

text \<open>
  The unit the success path builds from one chunk with one channel at 44100 Hz.
\<close>

definition chunk_unit :: "json \<Rightarrow> bytes \<Rightarrow> synthesized_audio" where
  "chunk_unit tid chunk =
     \<lparr> frame = \<lparr> samples_per_channel = int (length chunk) div 2,
                 frame_sample_rate = 44100, frame_num_channels = 1, data = chunk \<rparr>,
       request_id = tid \<rparr>"

section \<open>Auxiliary facts\<close>

subsection \<open>The error request id\<close>

lemma hex_digits_lower: "\<forall>d \<in> set [0..<16]. is_lower_hex (hex_digit d)"
  by code_simp

lemma hex_digit_lower: "d < 16 \<Longrightarrow> is_lower_hex (hex_digit d)"
  using hex_digits_lower by simp

lemma uuid_hex_lower: "c \<in> set (uuid_hex u) \<Longrightarrow> is_lower_hex c"
  unfolding uuid_hex_def by (auto simp: hex_digit_lower)

lemma uuid_hex_length: "length (uuid_hex u) = 32"
  by (simp add: uuid_hex_def)

lemma error_request_id_matches: "matches_error_pattern (error_request_id u)"
  unfolding matches_error_pattern_def error_request_id_def
  by (auto simp: list_all_iff uuid_hex_length dest!: in_set_takeD uuid_hex_lower)

lemma error_request_id_example:
  "error_request_id 7 = ''error-00000000''"
  by code_simp

subsection \<open>Configuration of a reachable adapter\<close>

lemma reachable_config:
  "reachable s \<Longrightarrow> sample_rate s = 44100 \<and> num_channels s = 1"
proof (induction rule: reachable.induct)
  case (reach_flush s r u)
  then show ?case by (cases "input_buffer s = []") (simp_all add: flush_def)
next
  case (reach_aiter_pass s r u)
  then show ?case by (simp add: aiter_pass_def Let_def split: sum.splits)
qed (simp_all add: init_def push_text_def end_input_def aclose_def)

lemma yield_silence_configured:
  assumes "sample_rate s = 44100" and "num_channels s = 1"
  shows "yield_silence s u = ([silence_unit u], Inr ())"
  using assms by (simp add: yield_silence_def AudioFrame_def silence_unit_def)

subsection \<open>Runs of synthesize_stream\<close>

text \<open>With one channel the constructor accepts a chunk exactly when its length is even.\<close>

lemma AudioFrame_chunk:
  "AudioFrame (int (length c) div 2) rate 1 c =
     (if odd (length c) then Inl ValueError
      else Inr \<lparr> samples_per_channel = int (length c) div 2, frame_sample_rate = rate,
                 frame_num_channels = 1, data = c \<rparr>)"
proof -
  have "\<not> int (length c) < 1 * (int (length c) div 2) * 2" by simp
  then show ?thesis unfolding AudioFrame_def by simp
qed

text \<open>
  The loop yields a unit for each chunk up to the first one of odd length, where the
  constructor raises.
\<close>

lemma stream_loop_configured:
  assumes "sample_rate s = 44100" and "num_channels s = 1"
  shows "stream_loop s tid chunks fin =
     (map (chunk_unit tid) (takeWhile (\<lambda>c. even (length c)) chunks),
      if \<forall>c \<in> set chunks. even (length c)
      then (case fin of StreamClosed \<Rightarrow> Inr () | StreamRaises e \<Rightarrow> Inl e)
      else Inl ValueError)"
proof (induction chunks)
  case Nil
  show ?case by (cases fin) simp_all
next
  case (Cons c cs)
  with assms show ?case by (simp add: AudioFrame_chunk chunk_unit_def)
qed

text \<open>In a reachable adapter the handler catches every exception of the \<^verbatim>\<open>try\<close> block.\<close>

lemma synthesize_stream_returns:
  assumes "reachable s"
  shows "outcome (synthesize_stream s text r u) = Inr ()"
  using reachable_config [OF assms]
  by (simp add: synthesize_stream_def Let_def yield_silence_configured split: sum.splits)

text \<open>
  A reply that is not status 200 with the key in a JSON object: the \<^verbatim>\<open>try\<close> block
  makes the POST only, and either yields the silence unit and returns, or yields nothing
  and raises.
\<close>

lemma synthesize_try_failed:
  assumes "sample_rate s = 44100" and "num_channels s = 1"
    and "post_reply r = PostResponse status parsed"
    and "status \<noteq> 200 \<or> \<not> has_transcription_id parsed"
  shows "requests (synthesize_try s text r u) =
           [Post (api_url s @ ''/convert'')
              \<lparr> payload_voice = voice s, content = text, format = ''mp3'',
                payload_voice_engine = voice_engine s \<rparr> (headers s)]
         \<and> (units (synthesize_try s text r u) = [silence_unit u]
              \<and> outcome (synthesize_try s text r u) = Inr ()
            \<or> units (synthesize_try s text r u) = []
              \<and> (\<exists>e. outcome (synthesize_try s text r u) = Inl e))"
proof (cases "status = 200")
  case False
  with assms(3) show ?thesis
    by (simp add: synthesize_try_def Let_def yield_silence_configured [OF assms(1,2)])
next
  case True
  with assms(4) have none: "\<not> has_transcription_id parsed" by simp
  show ?thesis
  proof (cases parsed)
    case (Inl e)
    with assms(3) True show ?thesis by (simp add: synthesize_try_def Let_def)
  next
    case (Inr d)
    with none assms(3) True show ?thesis
      by (cases d)
         (simp_all add: synthesize_try_def Let_def yield_silence_configured [OF assms(1,2)]
            split: bool.splits)
  qed
qed

lemma synthesize_stream_failed:
  assumes "sample_rate s = 44100" and "num_channels s = 1"
    and "post_reply r = PostResponse status parsed"
    and "status \<noteq> 200 \<or> \<not> has_transcription_id parsed"
  shows "synthesize_stream s text r u =
           \<lparr> requests = [Post (api_url s @ ''/convert'')
              \<lparr> payload_voice = voice s, content = text, format = ''mp3'',
                payload_voice_engine = voice_engine s \<rparr> (headers s)],
             units = [silence_unit u], outcome = Inr () \<rparr>"
  using synthesize_try_failed [OF assms, of "text" u]
  by (cases "synthesize_try s text r u")
     (auto simp: synthesize_stream_def Let_def yield_silence_configured [OF assms(1,2)])

text \<open>
  Status 200 with the id: the POST, the streaming GET, one unit per chunk up to the
  first chunk of odd length, and the silence unit when the stream did not run to its
  close.
\<close>

lemma synthesize_stream_streamed:
  assumes "sample_rate s = 44100" and "num_channels s = 1"
    and "post_reply r = PostResponse 200 (Inr (JObj kvs))"
    and "map_of kvs ''transcriptionId'' = Some tid"
    and "get_reply r = GetChunks chunks fin"
  shows "synthesize_stream s text r u =
           \<lparr> requests = [Post (api_url s @ ''/convert'')
              \<lparr> payload_voice = voice s, content = text, format = ''mp3'',
                payload_voice_engine = voice_engine s \<rparr> (headers s),
               StreamGet (api_url s @ ''/stream/'') tid (headers s)],
             units = map (chunk_unit tid) (takeWhile (\<lambda>c. even (length c)) chunks)
                @ (if (\<forall>c \<in> set chunks. even (length c)) \<and> fin = StreamClosed
                   then [] else [silence_unit u]),
             outcome = Inr () \<rparr>"
proof -
  from assms(4) have "''transcriptionId'' \<in> fst ` set kvs"
    by (force dest: map_of_SomeD)
  with assms(3,4,5) show ?thesis
    by (cases fin)
       (simp_all add: synthesize_stream_def synthesize_try_def Let_def
          stream_loop_configured [OF assms(1,2)] yield_silence_configured [OF assms(1,2)])
qed

subsection \<open>flush on a non-empty buffer\<close>

text \<open>
  The call raises, sends nothing and leaves the adapter, its buffer included, as it was.
\<close>

lemma flush_nonempty_raises:
  "input_buffer s \<noteq> [] \<Longrightarrow> flush s r u = (Inl TypeError, [], s)"
  by (simp add: flush_def)

text \<open>
  No \<^verbatim>\<open>flush\<close> of a non-empty buffer returns normally; were it to, the buffer would be
  empty afterwards.
\<close>

lemma flush_nonempty_never_returns:
  "input_buffer s \<noteq> [] \<Longrightarrow> fst (flush s r u) \<noteq> Inr ()"
  by (simp add: flush_def)

subsection \<open>The iteration loop\<close>

lemma aiter_loop_spins:
  assumes "aiter_loop env k s = Some y"
  shows "is_input_done s \<or> input_buffer s \<noteq> []"
proof (rule aiter_loop.raw_induct
         [where P = "\<lambda>env k s y. is_input_done s \<or> input_buffer s \<noteq> []", OF _ assms],
       goal_cases)
  case (1 loop env k s y)
  show ?case
  proof (rule ccontr)
    assume "\<not> (is_input_done s \<or> input_buffer s \<noteq> [])"
    then have idle: "\<not> is_input_done s" "input_buffer s = []" by simp_all
    with 1(2) have "loop env (Suc k) s \<noteq> None"
      by (cases "loop env (Suc k) s") (simp_all add: aiter_pass_def)
    then obtain y' where "loop env (Suc k) s = Some y'"
      by blast
    from 1(1)[OF this] idle show False by simp
  qed
qed

lemma aiter_loop_idle_forever:
  "\<not> is_input_done s \<Longrightarrow> input_buffer s = [] \<Longrightarrow> aiter_loop env k s = None"
  using aiter_loop_spins [of env k s] by (cases "aiter_loop env k s") auto

lemma aiter_loop_done:
  "is_input_done s \<Longrightarrow> input_buffer s = [] \<Longrightarrow>
   aiter_loop env k s = Some (\<lparr> requests = [], units = [], outcome = Inr () \<rparr>, s)"
  by (subst aiter_loop.simps) simp

text \<open>
  After \<^verbatim>\<open>end_input\<close>, a buffer that still holds text is synthesized in one pass and
  the loop ends.
\<close>

lemma aiter_loop_last_pass:
  assumes "reachable s" and "is_input_done s" and "input_buffer s \<noteq> []"
  shows "aiter_loop env k s =
           Some (synthesize_stream s (join_space (input_buffer s)) (fst (env k)) (snd (env k)),
                 s\<lparr>input_buffer := []\<rparr>)"
proof -
  have pass: "aiter_pass s (fst (env k)) (snd (env k)) =
          (synthesize_stream s (join_space (input_buffer s)) (fst (env k)) (snd (env k)),
           s\<lparr>input_buffer := []\<rparr>)"
    using assms(3) by (simp add: aiter_pass_def Let_def synthesize_stream_returns [OF assms(1)])
  have rest: "aiter_loop env (Suc k) (s\<lparr>input_buffer := []\<rparr>) =
          Some (\<lparr> requests = [], units = [], outcome = Inr () \<rparr>, s\<lparr>input_buffer := []\<rparr>)"
    using assms(2) by (simp add: aiter_loop_done)
  show ?thesis
    using assms
    by (subst aiter_loop.simps) (simp add: pass rest synthesize_stream_returns [OF assms(1)])
qed

section \<open>Properties\<close>

subsection \<open>C1\<close>

text \<open>
  C1: when the POST to the convert endpoint returns a status outside 200..299, or returns
  200 with a body that lacks the \<^verbatim>\<open>transcriptionId\<close> field, \<^verbatim>\<open>synthesize_stream\<close>
  yields exactly one unit and then ends normally. The unit has 80 samples per channel,
  sample rate 44100, one channel, 160 zero bytes, and a request id matching
  \<^verbatim>\<open>error-[0-9a-f]{8}\<close>.
\<close>

theorem failed_convert_yields_one_silence_unit:
  assumes "reachable s"
    and "post_reply r = PostResponse status parsed"
    and "\<not> (200 \<le> status \<and> status \<le> 299) \<or> (status = 200 \<and> \<not> has_transcription_id parsed)"
  shows "units (synthesize_stream s text r u) =
           [\<lparr> frame = \<lparr> samples_per_channel = 80, frame_sample_rate = 44100,
                        frame_num_channels = 1, data = replicate 160 0 \<rparr>,
              request_id = JStr (error_request_id u) \<rparr>]
         \<and> matches_error_pattern (error_request_id u)
         \<and> outcome (synthesize_stream s text r u) = Inr ()"
proof -
  from assms(3) have ne: "status \<noteq> 200 \<or> \<not> has_transcription_id parsed" by auto
  from reachable_config [OF assms(1)]
  have cfg: "sample_rate s = 44100" "num_channels s = 1" by simp_all
  from synthesize_stream_failed [OF cfg assms(2) ne, of "text" u]
  show ?thesis
    by (simp add: silence_unit_def error_request_id_matches)
qed

theorem failed_convert_yields_one_silence_unit_witness:
  "units (synthesize_stream (init ''key'' ''uid'' ''Emma'') ''Hello''
            \<lparr> post_reply = PostResponse 500 (Inl JSONDecodeError),
              get_reply = GetRaises (TransportError ''unused'') \<rparr> 7) =
     [\<lparr> frame = \<lparr> samples_per_channel = 80, frame_sample_rate = 44100,
                  frame_num_channels = 1, data = replicate 160 0 \<rparr>,
        request_id = JStr ''error-00000000'' \<rparr>]
   \<and> units (synthesize_stream (init ''key'' ''uid'' ''Emma'') ''Hello''
            \<lparr> post_reply = PostResponse 200 (Inr (JObj [(''status'', JStr ''queued'')])),
              get_reply = GetRaises (TransportError ''unused'') \<rparr> 7) =
     [\<lparr> frame = \<lparr> samples_per_channel = 80, frame_sample_rate = 44100,
                  frame_num_channels = 1, data = replicate 160 0 \<rparr>,
        request_id = JStr ''error-00000000'' \<rparr>]
   \<and> matches_error_pattern ''error-00000000''"
proof -
  have a: "post_reply \<lparr> post_reply = PostResponse 500 (Inl JSONDecodeError),
              get_reply = GetRaises (TransportError ''unused'') \<rparr>
           = PostResponse 500 (Inl JSONDecodeError)" by simp
  have b: "post_reply \<lparr> post_reply = PostResponse 200 (Inr (JObj [(''status'', JStr ''queued'')])),
              get_reply = GetRaises (TransportError ''unused'') \<rparr>
           = PostResponse 200 (Inr (JObj [(''status'', JStr ''queued'')]))" by simp
  show ?thesis
    using failed_convert_yields_one_silence_unit
            [OF reach_init a, of "''key''" "''uid''" "''Emma''" "''Hello''" 7]
      failed_convert_yields_one_silence_unit
            [OF reach_init b, of "''key''" "''uid''" "''Emma''" "''Hello''" 7]
    by (simp add: error_request_id_example)
qed

subsection \<open>C2\<close>

text \<open>
  C2 says that the synthesis path never raises and that \<^verbatim>\<open>flush\<close> on a non-empty
  buffer completes. \<^verbatim>\<open>synthesize_stream\<close> itself, run in a reachable adapter, always
  ends normally (\<open>synthesize_stream_returns\<close>), but \<^verbatim>\<open>flush\<close> awaits the async generator object
  instead of iterating it: with one fragment pushed and a remote side that would answer
  200 with an id, \<^verbatim>\<open>flush\<close> raises \<^verbatim>\<open>TypeError\<close>.
\<close>

theorem flush_raises_type_error:
  "fst (flush (push_text ''Hello'' (init ''key'' ''uid'' ''Emma''))
          \<lparr> post_reply = PostResponse 200 (Inr (JObj [(''transcriptionId'', JStr ''abc'')])),
            get_reply = GetChunks [[1, 2]] StreamClosed \<rparr> 7)
   = Inl TypeError"
  by (simp add: flush_def push_text_def init_def)

subsection \<open>C3\<close>

text \<open>
  C3 says that \<^verbatim>\<open>flush\<close> after pushing \<^verbatim>\<open>Hello\<close> and \<^verbatim>\<open>world\<close> sends one POST
  whose content is \<^verbatim>\<open>Hello world\<close>. \<^verbatim>\<open>flush\<close> does join the fragments to that
  string, but it makes no call on the HTTP client at all; the loop of \<^verbatim>\<open>__aiter__\<close>,
  which iterates the generator, sends that POST from the same state.
\<close>

theorem flush_sends_no_request:
  "join_space (input_buffer (push_text ''world'' (push_text ''Hello'' (init ''key'' ''uid'' ''Emma''))))
     = ''Hello world''
   \<and> fst (snd (flush (push_text ''world'' (push_text ''Hello'' (init ''key'' ''uid'' ''Emma'')))
          \<lparr> post_reply = PostResponse 200 (Inr (JObj [(''transcriptionId'', JStr ''abc'')])),
            get_reply = GetChunks [[1, 2]] StreamClosed \<rparr> 7))
     = []
   \<and> requests (fst (aiter_pass
          (push_text ''world'' (push_text ''Hello'' (init ''key'' ''uid'' ''Emma'')))
          \<lparr> post_reply = PostResponse 200 (Inr (JObj [(''transcriptionId'', JStr ''abc'')])),
            get_reply = GetChunks [[1, 2]] StreamClosed \<rparr> 7))
     = [Post ''https://play.ht/api/v1/convert''
          \<lparr> payload_voice = ''Emma'', content = ''Hello world'', format = ''mp3'',
            payload_voice_engine = ''Play3.0-mini-http'' \<rparr>
          [(''Authorization'', ''Bearer key''), (''X-User-ID'', ''uid''),
           (''Content-Type'', ''application/json'')],
        StreamGet ''https://play.ht/api/v1/stream/'' (JStr ''abc'')
          [(''Authorization'', ''Bearer key''), (''X-User-ID'', ''uid''),
           (''Content-Type'', ''application/json'')]]"
  by (simp add: flush_def aiter_pass_def synthesize_stream_def synthesize_try_def
        AudioFrame_def push_text_def init_def)

subsection \<open>C5\<close>

text \<open>
  C5 as stated gives 80 samples for a chunk of 320 bytes. The code computes
  \<^verbatim>\<open>len(chunk) // (2 * num_channels)\<close> with one channel, which is 160.
\<close>

theorem chunks_320_and_4_counterexample:
  "length (replicate 320 (0::byte)) = 320 \<and> length (replicate 4 (0::byte)) = 4
   \<and> map (samples_per_channel \<circ> frame)
         (units (synthesize_stream (init ''key'' ''uid'' ''Emma'') ''Hello''
            \<lparr> post_reply = PostResponse 200 (Inr (JObj [(''transcriptionId'', JStr ''abc'')])),
              get_reply = GetChunks [replicate 320 0, replicate 4 0] StreamClosed \<rparr> 7))
       = [160, 2]
   \<and> map (samples_per_channel \<circ> frame)
         (units (synthesize_stream (init ''key'' ''uid'' ''Emma'') ''Hello''
            \<lparr> post_reply = PostResponse 200 (Inr (JObj [(''transcriptionId'', JStr ''abc'')])),
              get_reply = GetChunks [replicate 320 0, replicate 4 0] StreamClosed \<rparr> 7))
       \<noteq> [80, 2]"
  by (simp add: synthesize_stream_def synthesize_try_def AudioFrame_def init_def)

text \<open>
  C5, amended: on the success path, for a stream delivering byte chunks of lengths
  320 and 4, the yielded units have 160 and 2 samples per channel, each being the
  chunk's byte length divided by \<open>2 * channel_count\<close> with \<open>channel_count = 1\<close>, and
  both units carry the session id returned by the provider.
\<close>

theorem chunks_320_and_4:
  assumes "reachable s"
    and "post_reply r = PostResponse 200 (Inr (JObj kvs))"
    and "map_of kvs ''transcriptionId'' = Some tid"
    and "get_reply r = GetChunks [c1, c2] StreamClosed"
    and "length c1 = 320" and "length c2 = 4"
  shows "map (samples_per_channel \<circ> frame) (units (synthesize_stream s text r u))
           = [int (length c1) div (2 * 1), int (length c2) div (2 * 1)]
         \<and> map (samples_per_channel \<circ> frame) (units (synthesize_stream s text r u)) = [160, 2]
         \<and> map (frame_num_channels \<circ> frame) (units (synthesize_stream s text r u)) = [1, 1]
         \<and> map request_id (units (synthesize_stream s text r u)) = [tid, tid]"
proof -
  from reachable_config [OF assms(1)]
  have cfg: "sample_rate s = 44100" "num_channels s = 1" by simp_all
  from assms(5,6) synthesize_stream_streamed [OF cfg assms(2,3,4), of "text" u]
  show ?thesis by (simp add: chunk_unit_def)
qed

theorem chunks_320_and_4_witness:
  "map (samples_per_channel \<circ> frame)
     (units (synthesize_stream (push_text ''Hello'' (init ''key'' ''uid'' ''Emma'')) ''Hello''
        \<lparr> post_reply = PostResponse 200 (Inr (JObj [(''transcriptionId'', JStr ''abc'')])),
          get_reply = GetChunks [replicate 320 1, replicate 4 2] StreamClosed \<rparr> 7))
     = [160, 2]
   \<and> map request_id
     (units (synthesize_stream (push_text ''Hello'' (init ''key'' ''uid'' ''Emma'')) ''Hello''
        \<lparr> post_reply = PostResponse 200 (Inr (JObj [(''transcriptionId'', JStr ''abc'')])),
          get_reply = GetChunks [replicate 320 1, replicate 4 2] StreamClosed \<rparr> 7))
     = [JStr ''abc'', JStr ''abc'']"
proof -
  have st: "reachable (push_text ''Hello'' (init ''key'' ''uid'' ''Emma''))"
    by (rule reach_push_text [OF reach_init])
  have a: "post_reply \<lparr> post_reply = PostResponse 200 (Inr (JObj [(''transcriptionId'', JStr ''abc'')])),
          get_reply = GetChunks [replicate 320 1, replicate 4 2] StreamClosed \<rparr>
        = PostResponse 200 (Inr (JObj [(''transcriptionId'', JStr ''abc'')]))" by simp
  have b: "map_of [(''transcriptionId'', JStr ''abc'')] ''transcriptionId'' = Some (JStr ''abc'')"
    by simp
  have c: "get_reply \<lparr> post_reply = PostResponse 200 (Inr (JObj [(''transcriptionId'', JStr ''abc'')])),
          get_reply = GetChunks [replicate 320 1, replicate 4 2] StreamClosed \<rparr>
        = GetChunks [replicate 320 1, replicate 4 2] StreamClosed" by simp
  have d: "length (replicate 320 (1::byte)) = 320" "length (replicate 4 (2::byte)) = 4"
    by simp_all
  show ?thesis
    using chunks_320_and_4 [OF st a b c d, of "''Hello''" 7] by simp
qed

subsection \<open>C6\<close>




subsection \<open>C7\<close>

text \<open>
  C7: in an adapter state where \<^verbatim>\<open>end_input\<close> has been called and the pending
  buffer is empty, the loop of \<^verbatim>\<open>__aiter__\<close> exits, from its start and from any
  later pass alike: it yields no unit, makes no call on the HTTP client and leaves the
  adapter as it is.
\<close>

theorem aiter_ends_when_done_and_empty:
  assumes "is_input_done s" and "input_buffer s = []"
  shows "aiter env s = Some (\<lparr> requests = [], units = [], outcome = Inr () \<rparr>, s)
         \<and> aiter_loop env k s = Some (\<lparr> requests = [], units = [], outcome = Inr () \<rparr>, s)"
  using assms by (simp add: aiter_def aiter_loop_done)

theorem aiter_ends_when_done_and_empty_witness:
  "aiter (\<lambda>k. (\<lparr> post_reply = PostRaises (TransportError ''down''),
                  get_reply = GetRaises (TransportError ''down'') \<rparr>, 7))
     (end_input (init ''key'' ''uid'' ''Emma''))
   = Some (\<lparr> requests = [], units = [], outcome = Inr () \<rparr>,
           end_input (init ''key'' ''uid'' ''Emma''))"
proof -
  have a: "is_input_done (end_input (init ''key'' ''uid'' ''Emma''))"
    by (simp add: end_input_def)
  have b: "input_buffer (end_input (init ''key'' ''uid'' ''Emma'')) = []"
    by (simp add: end_input_def init_def)
  show ?thesis
    using aiter_ends_when_done_and_empty [OF a b] by simp
qed

subsection \<open>C8\<close>

text \<open>
  C8 says that with an empty buffer and the input-done flag unset, every pass through
  the loop of \<^verbatim>\<open>__aiter__\<close> reaches a suspension point. On a freshly built adapter
  the loop condition holds, the pass awaits nothing, yields nothing and changes
  nothing, and the loop never ends: it tests its condition again and again without
  handing control back.
\<close>

theorem aiter_idle_never_suspends:
  "\<not> is_input_done (init ''key'' ''uid'' ''Emma'')
   \<and> input_buffer (init ''key'' ''uid'' ''Emma'') = []
   \<and> aiter_pass (init ''key'' ''uid'' ''Emma'') r u
     = (\<lparr> requests = [], units = [], outcome = Inr () \<rparr>, init ''key'' ''uid'' ''Emma'')
   \<and> suspension_points (fst (aiter_pass (init ''key'' ''uid'' ''Emma'') r u)) = 0
   \<and> aiter env (init ''key'' ''uid'' ''Emma'') = None"
proof -
  have idle: "\<not> is_input_done (init ''key'' ''uid'' ''Emma'')"
    "input_buffer (init ''key'' ''uid'' ''Emma'') = []"
    by (simp_all add: init_def)
  from idle show ?thesis
    by (simp add: aiter_pass_def suspension_points_def aiter_def aiter_loop_idle_forever)
qed

subsection \<open>C9\<close>

text \<open>
  C9: with an empty pending buffer, \<^verbatim>\<open>flush\<close> returns normally, makes no call on the
  HTTP client and leaves every field of the adapter as it was.
\<close>

theorem flush_empty_noop:
  "input_buffer s = [] \<Longrightarrow> flush s r u = (Inr (), [], s)"
  by (simp add: flush_def)

theorem flush_empty_noop_witness:
  "input_buffer (init ''key'' ''uid'' ''Emma'') = []
   \<and> flush (init ''key'' ''uid'' ''Emma'')
        \<lparr> post_reply = PostResponse 200 (Inr (JObj [(''transcriptionId'', JStr ''abc'')])),
          get_reply = GetChunks [[1, 2]] StreamClosed \<rparr> 7
     = (Inr (), [], init ''key'' ''uid'' ''Emma'')"
proof -
  have a: "input_buffer (init ''key'' ''uid'' ''Emma'') = []"
    by (simp add: init_def)
  show ?thesis
    using a flush_empty_noop [OF a] by simp
qed

subsection \<open>C10\<close>




end
